theory Spec2Isabelle
  imports Main "HOL-Library.Sublist"
begin

section \<open>PersonaGPT: the conversation relay\<close>

text \<open>
  The service keeps one module-level list, \<^verbatim>\<open>conversation_history\<close>
  (\<^verbatim>\<open>app/api/routes/chat.py\<close>), and exposes four routes: \<^verbatim>\<open>POST /api/chat/send\<close>,
  \<^verbatim>\<open>POST /api/chat/reset\<close>, \<^verbatim>\<open>GET /\<close> and \<^verbatim>\<open>GET /health\<close>. Every handler is an
  \<^verbatim>\<open>async def\<close> whose body contains no \<^verbatim>\<open>await\<close> (the provider call in
  \<^verbatim>\<open>get_chat_response\<close> is a plain blocking call), so a handler runs from its first
  statement to its \<^verbatim>\<open>return\<close> or \<^verbatim>\<open>raise\<close> without another handler in between. A
  handler is therefore a function from the state before the request to a result and the
  state after it.
\<close>

subsection \<open>Data\<close>

text \<open>
  An entry of \<^verbatim>\<open>conversation_history\<close> is a dict with exactly the keys \<^verbatim>\<open>"role"\<close> and
  \<^verbatim>\<open>"content"\<close>, both holding strings.
\<close>

record turn =
  role :: string
  content :: string

text \<open>
  Modelled from the spec: \<^verbatim>\<open>ChatRequest\<close> and \<^verbatim>\<open>ChatResponse\<close> of
  \<^verbatim>\<open>app/schemas/chat.py\<close>, which is not among the sources. The spec gives the request body
  as \<^verbatim>\<open>{ "message": string }\<close>, with no length or content validation, and the response
  body as \<^verbatim>\<open>{ "reply": string }\<close>.
\<close>

record chat_request =
  message :: string

record chat_response =
  reply :: string

text \<open>
  What \<^verbatim>\<open>client.chat.completions.create\<close> returns, as far as \<^verbatim>\<open>get_chat_response\<close>
  reads it: \<^verbatim>\<open>response.choices[0].message.content\<close>. The two fields named
  \<^verbatim>\<open>message\<close> and \<^verbatim>\<open>content\<close> there are \<open>choice_message\<close> and \<open>message_content\<close>
  here, the plain names being taken by the request and the turn. The content is a string, as
  the annotation \<^verbatim>\<open>-> str\<close> of \<^verbatim>\<open>get_chat_response\<close> says.
\<close>

record chat_completion_message =
  message_content :: string

record choice =
  choice_message :: chat_completion_message

record chat_completion =
  choices :: "choice list"

text \<open>
  The exceptions (subclasses of \<^verbatim>\<open>Exception\<close>) that can occur inside the \<^verbatim>\<open>try\<close> block
  of \<^verbatim>\<open>send_message\<close>: whatever the OpenAI client raises, known to the handler only
  through \<^verbatim>\<open>str(e)\<close>, and the \<^verbatim>\<open>IndexError\<close> of \<^verbatim>\<open>choices[0]\<close> on an empty list.
\<close>

datatype py_exception = ProviderError string | IndexError

fun str :: "py_exception \<Rightarrow> string" where
  "str (ProviderError text) = text"
| "str IndexError = ''list index out of range''"

datatype http_exception = HTTPException (status_code: nat) (detail: string)

text \<open>
  The completion provider is outside the program. A call
  \<^verbatim>\<open>client.chat.completions.create(model=..., messages=...)\<close> depends on, and changes, the
  world outside the process (the network, the provider's quota and its sampling), so it is a
  parameter: from the world before the call, the model name and the messages, to an exception
  or a response, and the world after the call. The model name \<^verbatim>\<open>OPENAI_MODEL\<close> comes from
  \<^verbatim>\<open>app/core/config.py\<close>, which is not among the sources, and is a parameter too.
\<close>

type_synonym 'w create =
  "'w \<Rightarrow> string \<Rightarrow> turn list \<Rightarrow> (py_exception + chat_completion) \<times> 'w"

text \<open>The state: the module-level list and the world the provider lives in.\<close>

record 'w state =
  conversation_history :: "turn list"
  world :: 'w

subsection \<open>\<^verbatim>\<open>app/services/chatbot.py\<close>\<close>

definition get_chat_response ::
  "'w create \<Rightarrow> string \<Rightarrow> turn list \<Rightarrow> 'w \<Rightarrow> (py_exception + string) \<times> 'w" where
  "get_chat_response create OPENAI_MODEL messages w =
     (case create w OPENAI_MODEL messages of
        (Inl e, w') \<Rightarrow> (Inl e, w')
      | (Inr response, w') \<Rightarrow>
          (case choices response of
             [] \<Rightarrow> (Inl IndexError, w')
           | c # _ \<Rightarrow> (Inr (message_content (choice_message c)), w')))"

subsection \<open>\<^verbatim>\<open>app/api/routes/chat.py\<close>\<close>

definition system_turn :: turn where
  "system_turn =
     \<lparr>role = ''system'',
      content = ''You are PersonaGPT, a helpful and friendly AI assistant.''\<rparr>"

text \<open>The value of \<^verbatim>\<open>conversation_history\<close> when the module has been loaded.\<close>

definition startup :: "'w \<Rightarrow> 'w state" where
  "startup w = \<lparr>conversation_history = [system_turn], world = w\<rparr>"

text \<open>
  \<^verbatim>\<open>send_message\<close>: the first \<^verbatim>\<open>append\<close> precedes the provider call, so it stays when the
  call raises; \<^verbatim>\<open>except Exception as e\<close> turns every such exception into
  \<^verbatim>\<open>HTTPException(status_code=500, detail=str(e))\<close>.
\<close>

definition send_message ::
  "'w create \<Rightarrow> string \<Rightarrow> chat_request \<Rightarrow> 'w state
     \<Rightarrow> (http_exception + chat_response) \<times> 'w state" where
  "send_message create OPENAI_MODEL request s =
     (let h = conversation_history s @ [\<lparr>role = ''user'', content = message request\<rparr>]
      in case get_chat_response create OPENAI_MODEL h (world s) of
           (Inl e, w') \<Rightarrow>
             (Inl (HTTPException 500 (str e)),
              \<lparr>conversation_history = h, world = w'\<rparr>)
         | (Inr r, w') \<Rightarrow>
             (Inr \<lparr>reply = r\<rparr>,
              \<lparr>conversation_history = h @ [\<lparr>role = ''assistant'', content = r\<rparr>],
               world = w'\<rparr>))"

text \<open>\<^verbatim>\<open>reset_conversation\<close>: \<^verbatim>\<open>clear()\<close>, one \<^verbatim>\<open>append\<close>, and the dict returned.\<close>

definition reset_conversation :: "'w state \<Rightarrow> (string \<times> string) list \<times> 'w state" where
  "reset_conversation s =
     ([(''message'', ''Conversation reset'')],
      s\<lparr>conversation_history := [] @ [system_turn]\<rparr>)"

subsection \<open>\<^verbatim>\<open>app/main.py\<close>\<close>

text \<open>
  \<^verbatim>\<open>root\<close> returns \<^verbatim>\<open>FileResponse("static/index.html")\<close> and \<^verbatim>\<open>health\<close> a dict; neither
  names \<^verbatim>\<open>conversation_history\<close>.
\<close>

datatype response =
    Chat chat_response
  | Json "(string \<times> string) list"
  | FileResponse string

definition root :: "'w state \<Rightarrow> response \<times> 'w state" where
  "root s = (FileResponse ''static/index.html'', s)"

definition health :: "'w state \<Rightarrow> (string \<times> string) list \<times> 'w state" where
  "health s = ([(''status'', ''healthy'')], s)"

text \<open>
  The route table that \<^verbatim>\<open>app\<close> is built from: the router of \<^verbatim>\<open>chat.py\<close> (prefix
  \<^verbatim>\<open>/chat\<close>) included under \<^verbatim>\<open>/api\<close>, and the two routes of \<^verbatim>\<open>main.py\<close>.
\<close>

datatype endpoint =
    POST_api_chat_send chat_request
  | POST_api_chat_reset
  | GET_root
  | GET_health

fun app ::
  "'w create \<Rightarrow> string \<Rightarrow> endpoint \<Rightarrow> 'w state \<Rightarrow> (http_exception + response) \<times> 'w state" where
  "app create OPENAI_MODEL (POST_api_chat_send request) s =
     (case send_message create OPENAI_MODEL request s of
        (Inl e, s') \<Rightarrow> (Inl e, s')
      | (Inr r, s') \<Rightarrow> (Inr (Chat r), s'))"
| "app create OPENAI_MODEL POST_api_chat_reset s =
     (case reset_conversation s of (body, s') \<Rightarrow> (Inr (Json body), s'))"
| "app create OPENAI_MODEL GET_root s =
     (case root s of (r, s') \<Rightarrow> (Inr r, s'))"
| "app create OPENAI_MODEL GET_health s =
     (case health s of (body, s') \<Rightarrow> (Inr (Json body), s'))"

text \<open>
  The states the service can be in: the one at start, and the one after any request handled
  in such a state, whatever the provider does during it.
\<close>

inductive reachable :: "'w state \<Rightarrow> bool" where
  start: "reachable (startup w)"
| request: "reachable s \<Longrightarrow> reachable (snd (app create OPENAI_MODEL ep s))"

subsection \<open>Provider stubs\<close>

text \<open>
  Three providers for concrete runs. Their world is the number of calls made so far. The
  first always answers \<^verbatim>\<open>"pong"\<close>, the second always raises, the third answers with an
  empty list of choices.
\<close>

definition pong_provider :: "nat create" where
  "pong_provider w OPENAI_MODEL messages =
     (Inr \<lparr>choices = [\<lparr>choice_message = \<lparr>message_content = ''pong''\<rparr>\<rparr>]\<rparr>, Suc w)"

definition failing_provider :: "nat create" where
  "failing_provider w OPENAI_MODEL messages =
     (Inl (ProviderError ''Connection error.''), Suc w)"

definition no_choice_provider :: "nat create" where
  "no_choice_provider w OPENAI_MODEL messages = (Inr \<lparr>choices = []\<rparr>, Suc w)"

section \<open>Properties\<close>

text \<open>
  C1. When the provider call made by \<^verbatim>\<open>send_message\<close> succeeds with reply \<open>r\<close>, the
  transcript afterwards is the one before, followed by the user turn with the message and
  then the assistant turn with \<open>r\<close>, and the handler returns \<open>r\<close>. The provider is called
  on the transcript that already holds the user turn.
\<close>

theorem send_message_success:
  assumes "get_chat_response create OPENAI_MODEL
             (conversation_history s @ [\<lparr>role = ''user'', content = m\<rparr>]) (world s)
           = (Inr r, w')"
  shows "send_message create OPENAI_MODEL \<lparr>message = m\<rparr> s =
           (Inr \<lparr>reply = r\<rparr>,
            \<lparr>conversation_history =
               conversation_history s
                 @ [\<lparr>role = ''user'', content = m\<rparr>, \<lparr>role = ''assistant'', content = r\<rparr>],
             world = w'\<rparr>)"
  using assms by (simp add: send_message_def)

theorem send_message_success_witness:
  "get_chat_response pong_provider ''gpt-4o-mini''
     (conversation_history (startup 0) @ [\<lparr>role = ''user'', content = ''ping''\<rparr>])
     (world (startup 0)) = (Inr ''pong'', 1)
   \<and> send_message pong_provider ''gpt-4o-mini'' \<lparr>message = ''ping''\<rparr> (startup 0) =
       (Inr \<lparr>reply = ''pong''\<rparr>,
        \<lparr>conversation_history =
           [system_turn, \<lparr>role = ''user'', content = ''ping''\<rparr>,
            \<lparr>role = ''assistant'', content = ''pong''\<rparr>],
         world = 1\<rparr>)"
proof -
  have h: "get_chat_response pong_provider ''gpt-4o-mini''
             (conversation_history (startup 0) @ [\<lparr>role = ''user'', content = ''ping''\<rparr>])
             (world (startup 0)) = (Inr ''pong'', 1)"
    by (simp add: get_chat_response_def pong_provider_def startup_def)
  show ?thesis
    using h send_message_success [OF h] by (simp add: startup_def)
qed

subsection \<open>What one \<^verbatim>\<open>send_message\<close> does to the state\<close>

lemma send_message_history:
  "conversation_history (snd (send_message create OPENAI_MODEL request s)) =
     conversation_history s @ [\<lparr>role = ''user'', content = message request\<rparr>]
   \<or> (\<exists>r. conversation_history (snd (send_message create OPENAI_MODEL request s)) =
          conversation_history s
            @ [\<lparr>role = ''user'', content = message request\<rparr>,
               \<lparr>role = ''assistant'', content = r\<rparr>])"
  by (simp add: send_message_def Let_def split: prod.splits sum.splits)

lemma get_chat_response_world:
  "snd (get_chat_response create OPENAI_MODEL messages w) =
     snd (create w OPENAI_MODEL messages)"
  by (simp add: get_chat_response_def split: prod.splits sum.splits list.splits)

lemma send_message_world:
  "world (snd (send_message create OPENAI_MODEL request s)) =
     snd (create (world s) OPENAI_MODEL
            (conversation_history s @ [\<lparr>role = ''user'', content = message request\<rparr>]))"
proof -
  let ?h = "conversation_history s @ [\<lparr>role = ''user'', content = message request\<rparr>]"
  have "world (snd (send_message create OPENAI_MODEL request s)) =
          snd (get_chat_response create OPENAI_MODEL ?h (world s))"
    by (simp add: send_message_def Let_def split: prod.splits sum.splits)
  then show ?thesis
    by (simp add: get_chat_response_world)
qed

text \<open>
  C2. When the provider call made by \<^verbatim>\<open>send_message\<close> raises \<open>e\<close>, the handler raises
  \<^verbatim>\<open>HTTPException\<close> with status 500 and detail \<^verbatim>\<open>str(e)\<close>; the transcript afterwards is
  the one before followed by the user turn only; and the provider has been called exactly
  once, on that transcript: the world afterwards is the one that single call left.
\<close>

theorem send_message_failure:
  assumes "get_chat_response create OPENAI_MODEL
             (conversation_history s @ [\<lparr>role = ''user'', content = m\<rparr>]) (world s)
           = (Inl e, w')"
  shows "send_message create OPENAI_MODEL \<lparr>message = m\<rparr> s =
           (Inl (HTTPException 500 (str e)),
            \<lparr>conversation_history =
               conversation_history s @ [\<lparr>role = ''user'', content = m\<rparr>],
             world = w'\<rparr>)
         \<and> w' = snd (create (world s) OPENAI_MODEL
                       (conversation_history s @ [\<lparr>role = ''user'', content = m\<rparr>]))"
proof
  show "send_message create OPENAI_MODEL \<lparr>message = m\<rparr> s =
          (Inl (HTTPException 500 (str e)),
           \<lparr>conversation_history =
              conversation_history s @ [\<lparr>role = ''user'', content = m\<rparr>],
            world = w'\<rparr>)"
    using assms by (simp add: send_message_def)
  have "snd (get_chat_response create OPENAI_MODEL
               (conversation_history s @ [\<lparr>role = ''user'', content = m\<rparr>]) (world s)) = w'"
    using assms by simp
  then show "w' = snd (create (world s) OPENAI_MODEL
                         (conversation_history s @ [\<lparr>role = ''user'', content = m\<rparr>]))"
    by (simp add: get_chat_response_world)
qed

theorem send_message_failure_witness:
  "get_chat_response failing_provider ''gpt-4o-mini''
     (conversation_history (startup 0) @ [\<lparr>role = ''user'', content = ''hi''\<rparr>])
     (world (startup 0)) = (Inl (ProviderError ''Connection error.''), 1)
   \<and> send_message failing_provider ''gpt-4o-mini'' \<lparr>message = ''hi''\<rparr> (startup 0) =
       (Inl (HTTPException 500 ''Connection error.''),
        \<lparr>conversation_history = [system_turn, \<lparr>role = ''user'', content = ''hi''\<rparr>],
         world = 1\<rparr>)"
proof -
  have h: "get_chat_response failing_provider ''gpt-4o-mini''
             (conversation_history (startup 0) @ [\<lparr>role = ''user'', content = ''hi''\<rparr>])
             (world (startup 0)) = (Inl (ProviderError ''Connection error.''), 1)"
    by (simp add: get_chat_response_def failing_provider_def startup_def)
  show ?thesis
    using h send_message_failure [OF h] by (simp add: startup_def)
qed

text \<open>
  C3. At start, and after \<^verbatim>\<open>reset_conversation\<close> from any state (called directly or
  through its route), the transcript is a list of exactly one turn, whose role is
  \<^verbatim>\<open>system\<close>.
\<close>

theorem single_system_turn_at_start_and_after_reset:
  "conversation_history (startup w) =
     [\<lparr>role = ''system'',
       content = ''You are PersonaGPT, a helpful and friendly AI assistant.''\<rparr>]
   \<and> conversation_history (snd (reset_conversation s)) =
     [\<lparr>role = ''system'',
       content = ''You are PersonaGPT, a helpful and friendly AI assistant.''\<rparr>]
   \<and> conversation_history (snd (app create OPENAI_MODEL POST_api_chat_reset s)) =
     [\<lparr>role = ''system'',
       content = ''You are PersonaGPT, a helpful and friendly AI assistant.''\<rparr>]"
  by (simp add: startup_def reset_conversation_def system_turn_def)

text \<open>
  C4. \<^verbatim>\<open>reset_conversation\<close> is idempotent: from any state, and so from any state that
  requests have led to, resetting twice leaves the state that resetting once leaves, and its
  transcript is the single system turn.
\<close>

theorem reset_conversation_idempotent:
  "snd (reset_conversation (snd (reset_conversation s))) = snd (reset_conversation s)
   \<and> conversation_history (snd (reset_conversation s)) =
       [\<lparr>role = ''system'',
         content = ''You are PersonaGPT, a helpful and friendly AI assistant.''\<rparr>]
   \<and> conversation_history (snd (reset_conversation (snd (reset_conversation s)))) =
       [\<lparr>role = ''system'',
         content = ''You are PersonaGPT, a helpful and friendly AI assistant.''\<rparr>]"
  by (simp add: reset_conversation_def system_turn_def)

text \<open>
  C5. \<^verbatim>\<open>send_message\<close> only appends: the transcript before the call is a prefix of the
  transcript after it, whether the provider call succeeds or raises. The same holds for every
  route other than the reset.
\<close>

theorem only_reset_removes_turns:
  "prefix (conversation_history s)
     (conversation_history (snd (send_message create OPENAI_MODEL request s)))
   \<and> (ep \<noteq> POST_api_chat_reset \<longrightarrow>
        prefix (conversation_history s)
          (conversation_history (snd (app create OPENAI_MODEL ep s))))"
proof
  have send: "prefix (conversation_history s)
     (conversation_history (snd (send_message create OPENAI_MODEL rq s)))" for rq
    using send_message_history [of create OPENAI_MODEL rq s] by auto
  show "prefix (conversation_history s)
     (conversation_history (snd (send_message create OPENAI_MODEL request s)))"
    by (rule send)
  show "ep \<noteq> POST_api_chat_reset \<longrightarrow>
        prefix (conversation_history s)
          (conversation_history (snd (app create OPENAI_MODEL ep s)))"
  proof (cases ep)
    case (POST_api_chat_send rq)
    have "snd (app create OPENAI_MODEL (POST_api_chat_send rq) s) =
            snd (send_message create OPENAI_MODEL rq s)"
      by (simp split: prod.splits sum.splits)
    with send [of rq] POST_api_chat_send show ?thesis by simp
  next
    case POST_api_chat_reset
    then show ?thesis by simp
  next
    case GET_root
    then show ?thesis by (simp add: root_def)
  next
    case GET_health
    then show ?thesis by (simp add: health_def)
  qed
qed

theorem only_reset_removes_turns_witness:
  "POST_api_chat_send \<lparr>message = ''ping''\<rparr> \<noteq> POST_api_chat_reset
   \<and> conversation_history
       (snd (app pong_provider ''gpt-4o-mini'' (POST_api_chat_send \<lparr>message = ''ping''\<rparr>)
               (startup 0))) =
       [system_turn, \<lparr>role = ''user'', content = ''ping''\<rparr>,
        \<lparr>role = ''assistant'', content = ''pong''\<rparr>]
   \<and> prefix (conversation_history (startup (0::nat)))
       (conversation_history
          (snd (app pong_provider ''gpt-4o-mini'' (POST_api_chat_send \<lparr>message = ''ping''\<rparr>)
                  (startup 0))))"
  using only_reset_removes_turns
          [of "startup (0::nat)" pong_provider "''gpt-4o-mini''" "\<lparr>message = ''ping''\<rparr>"
              "POST_api_chat_send \<lparr>message = ''ping''\<rparr>"]
  by (simp add: send_message_def get_chat_response_def pong_provider_def startup_def)

text \<open>
  C6. \<^verbatim>\<open>reset_conversation\<close> has no failure path: from any state it returns the dict
  \<^verbatim>\<open>{"message": "Conversation reset"}\<close>, and the route answers with that body, not with an
  exception.
\<close>

theorem reset_conversation_always_succeeds:
  "fst (reset_conversation s) = [(''message'', ''Conversation reset'')]
   \<and> fst (app create OPENAI_MODEL POST_api_chat_reset s) =
       Inr (Json [(''message'', ''Conversation reset'')])"
  by (simp add: reset_conversation_def)

text \<open>
  C7. \<^verbatim>\<open>send_message\<close> checks nothing about the message: for every string \<open>m\<close>, the empty
  string among them, the transcript after the call starts with the transcript before it
  followed by the user turn whose content is \<open>m\<close> itself, and the provider has been called,
  on exactly that transcript.
\<close>

theorem send_message_no_validation:
  "prefix (conversation_history s @ [\<lparr>role = ''user'', content = m\<rparr>])
     (conversation_history (snd (send_message create OPENAI_MODEL \<lparr>message = m\<rparr> s)))
   \<and> world (snd (send_message create OPENAI_MODEL \<lparr>message = m\<rparr> s)) =
       snd (create (world s) OPENAI_MODEL
              (conversation_history s @ [\<lparr>role = ''user'', content = m\<rparr>]))
   \<and> prefix (conversation_history s @ [\<lparr>role = ''user'', content = ''''\<rparr>])
       (conversation_history (snd (send_message create OPENAI_MODEL \<lparr>message = ''''\<rparr> s)))"
proof -
  have "prefix (conversation_history s @ [\<lparr>role = ''user'', content = x\<rparr>])
     (conversation_history (snd (send_message create OPENAI_MODEL \<lparr>message = x\<rparr> s)))" for x
    using send_message_history [of create OPENAI_MODEL "\<lparr>message = x\<rparr>" s] by auto
  then show ?thesis
    using send_message_world [of create OPENAI_MODEL "\<lparr>message = m\<rparr>" s] by simp
qed

subsection \<open>What one request does to the state\<close>

lemma app_send_state:
  "snd (app create OPENAI_MODEL (POST_api_chat_send request) s) =
     snd (send_message create OPENAI_MODEL request s)"
  by (simp split: prod.splits sum.splits)

text \<open>
  C8. In every state reachable from the start by requests (sends that succeed, sends that
  fail, resets and the two GET routes), the transcript is not empty, its first turn is the
  system turn with the persona text, and no later turn has the role \<^verbatim>\<open>system\<close>.
\<close>

theorem reachable_transcript_invariant:
  assumes "reachable s"
  shows "\<exists>ts. conversation_history s =
                \<lparr>role = ''system'',
                 content = ''You are PersonaGPT, a helpful and friendly AI assistant.''\<rparr> # ts
              \<and> (\<forall>t \<in> set ts. role t \<noteq> ''system'')"
  using assms
proof (induction rule: reachable.induct)
  case (start w)
  show ?case
    by (simp add: startup_def system_turn_def)
next
  case (request s create OPENAI_MODEL ep)
  then obtain ts where
    h: "conversation_history s = system_turn # ts" and
    ts: "\<forall>t \<in> set ts. role t \<noteq> ''system''"
    by (auto simp: system_turn_def)
  show ?case
  proof (cases ep)
    case (POST_api_chat_send rq)
    let ?u = "\<lparr>role = ''user'', content = message rq\<rparr>"
    let ?after = "conversation_history (snd (send_message create OPENAI_MODEL rq s))"
    from send_message_history [of create OPENAI_MODEL rq s]
    consider "?after = conversation_history s @ [?u]"
      | r where "?after = conversation_history s @ [?u, \<lparr>role = ''assistant'', content = r\<rparr>]"
      by blast
    then have "\<exists>us. ?after = system_turn # us \<and> (\<forall>t \<in> set us. role t \<noteq> ''system'')"
    proof cases
      case 1
      with h ts have "?after = system_turn # (ts @ [?u])"
        and "\<forall>t \<in> set (ts @ [?u]). role t \<noteq> ''system''"
        by auto
      then show ?thesis by blast
    next
      case (2 r)
      let ?a = "\<lparr>role = ''assistant'', content = r\<rparr>"
      from 2 h ts have "?after = system_turn # (ts @ [?u, ?a])"
        and "\<forall>t \<in> set (ts @ [?u, ?a]). role t \<noteq> ''system''"
        by auto
      then show ?thesis by blast
    qed
    with POST_api_chat_send show ?thesis
      by (simp only: app_send_state system_turn_def)
  next
    case POST_api_chat_reset
    then show ?thesis
      by (simp add: reset_conversation_def system_turn_def)
  next
    case GET_root
    with h ts show ?thesis
      by (simp add: root_def system_turn_def)
  next
    case GET_health
    with h ts show ?thesis
      by (simp add: health_def system_turn_def)
  qed
qed

theorem reachable_transcript_invariant_witness:
  "reachable (snd (app pong_provider ''gpt-4o-mini''
                     (POST_api_chat_send \<lparr>message = ''ping''\<rparr>) (startup 0)))
   \<and> conversation_history
       (snd (app pong_provider ''gpt-4o-mini''
               (POST_api_chat_send \<lparr>message = ''ping''\<rparr>) (startup 0))) =
       [\<lparr>role = ''system'',
         content = ''You are PersonaGPT, a helpful and friendly AI assistant.''\<rparr>,
        \<lparr>role = ''user'', content = ''ping''\<rparr>,
        \<lparr>role = ''assistant'', content = ''pong''\<rparr>]
   \<and> (\<exists>ts. conversation_history
              (snd (app pong_provider ''gpt-4o-mini''
                      (POST_api_chat_send \<lparr>message = ''ping''\<rparr>) (startup 0))) =
              \<lparr>role = ''system'',
               content = ''You are PersonaGPT, a helpful and friendly AI assistant.''\<rparr> # ts
            \<and> (\<forall>t \<in> set ts. role t \<noteq> ''system''))"
proof -
  have r: "reachable (snd (app pong_provider ''gpt-4o-mini''
                             (POST_api_chat_send \<lparr>message = ''ping''\<rparr>) (startup 0)))"
    by (rule reachable.request [OF reachable.start])
  have v: "conversation_history
       (snd (app pong_provider ''gpt-4o-mini''
               (POST_api_chat_send \<lparr>message = ''ping''\<rparr>) (startup 0))) =
       [\<lparr>role = ''system'',
         content = ''You are PersonaGPT, a helpful and friendly AI assistant.''\<rparr>,
        \<lparr>role = ''user'', content = ''ping''\<rparr>,
        \<lparr>role = ''assistant'', content = ''pong''\<rparr>]"
    by (simp add: send_message_def get_chat_response_def pong_provider_def startup_def
          system_turn_def)
  from r v reachable_transcript_invariant [OF r] show ?thesis
    by (intro conjI)
qed

text \<open>
  C9. \<^verbatim>\<open>get_chat_response\<close> reads \<^verbatim>\<open>choices[0]\<close> without a guard. When the provider's
  response has at least one choice, it returns the content of the first choice's message.
  When the list of choices is empty, the access raises \<^verbatim>\<open>IndexError\<close>, and
  \<^verbatim>\<open>send_message\<close> surfaces it through the same \<^verbatim>\<open>except\<close> branch as any other failure:
  status 500 with the detail \<^verbatim>\<open>str(IndexError)\<close>, the user turn already appended.
\<close>

theorem get_chat_response_first_choice:
  "(create w OPENAI_MODEL messages = (Inr response, w') \<and> choices response = c # cs \<longrightarrow>
      get_chat_response create OPENAI_MODEL messages w =
        (Inr (message_content (choice_message c)), w'))
   \<and> (create w OPENAI_MODEL messages = (Inr response, w') \<and> choices response = [] \<longrightarrow>
      get_chat_response create OPENAI_MODEL messages w = (Inl IndexError, w'))
   \<and> (create (world s) OPENAI_MODEL
         (conversation_history s @ [\<lparr>role = ''user'', content = m\<rparr>]) = (Inr response, w')
       \<and> choices response = [] \<longrightarrow>
      send_message create OPENAI_MODEL \<lparr>message = m\<rparr> s =
        (Inl (HTTPException 500 ''list index out of range''),
         \<lparr>conversation_history =
            conversation_history s @ [\<lparr>role = ''user'', content = m\<rparr>],
          world = w'\<rparr>))"
  by (simp add: get_chat_response_def send_message_def)

theorem get_chat_response_first_choice_witness:
  "(pong_provider 0 ''gpt-4o-mini'' [system_turn] =
      (Inr \<lparr>choices = [\<lparr>choice_message = \<lparr>message_content = ''pong''\<rparr>\<rparr>]\<rparr>, 1)
    \<and> get_chat_response pong_provider ''gpt-4o-mini'' [system_turn] 0 = (Inr ''pong'', 1))
   \<and> (no_choice_provider 0 ''gpt-4o-mini'' [system_turn, \<lparr>role = ''user'', content = ''hi''\<rparr>] =
        (Inr \<lparr>choices = []\<rparr>, 1)
      \<and> get_chat_response no_choice_provider ''gpt-4o-mini''
          [system_turn, \<lparr>role = ''user'', content = ''hi''\<rparr>] 0 = (Inl IndexError, 1)
      \<and> send_message no_choice_provider ''gpt-4o-mini'' \<lparr>message = ''hi''\<rparr> (startup 0) =
          (Inl (HTTPException 500 ''list index out of range''),
           \<lparr>conversation_history = [system_turn, \<lparr>role = ''user'', content = ''hi''\<rparr>],
            world = 1\<rparr>))"
proof -
  have p: "pong_provider 0 ''gpt-4o-mini'' [system_turn] =
      (Inr \<lparr>choices = [\<lparr>choice_message = \<lparr>message_content = ''pong''\<rparr>\<rparr>]\<rparr>, 1)"
    by (simp add: pong_provider_def)
  have n: "no_choice_provider 0 ''gpt-4o-mini''
             [system_turn, \<lparr>role = ''user'', content = ''hi''\<rparr>] = (Inr \<lparr>choices = []\<rparr>, 1)"
    by (simp add: no_choice_provider_def)
  show ?thesis
    using p n
      get_chat_response_first_choice
        [of pong_provider 0 "''gpt-4o-mini''" "[system_turn]"
            "\<lparr>choices = [\<lparr>choice_message = \<lparr>message_content = ''pong''\<rparr>\<rparr>]\<rparr>" 1
            "\<lparr>choice_message = \<lparr>message_content = ''pong''\<rparr>\<rparr>" "[]" "startup 0" "''hi''"]
      get_chat_response_first_choice
        [of no_choice_provider 0 "''gpt-4o-mini''"
            "[system_turn, \<lparr>role = ''user'', content = ''hi''\<rparr>]"
            "\<lparr>choices = []\<rparr>" 1 _ _ "startup 0" "''hi''"]
    by (simp add: startup_def)
qed

text \<open>
  C10. \<^verbatim>\<open>health\<close> returns \<^verbatim>\<open>{"status": "healthy"}\<close> and leaves the state, the transcript
  with it, as it was; so does \<^verbatim>\<open>root\<close>. A request to any route other than the send and
  the reset leaves the state unchanged: only those two change the transcript.
\<close>

theorem read_only_routes_keep_state:
  "health s = ([(''status'', ''healthy'')], s)
   \<and> app create OPENAI_MODEL GET_health s = (Inr (Json [(''status'', ''healthy'')]), s)
   \<and> snd (root s) = s
   \<and> ((\<forall>request. ep \<noteq> POST_api_chat_send request) \<and> ep \<noteq> POST_api_chat_reset \<longrightarrow>
        snd (app create OPENAI_MODEL ep s) = s)"
  by (cases ep) (simp_all add: health_def root_def)

theorem read_only_routes_keep_state_witness:
  "(\<forall>request. GET_root \<noteq> POST_api_chat_send request) \<and> GET_root \<noteq> POST_api_chat_reset
   \<and> snd (app failing_provider ''gpt-4o-mini'' GET_root
            \<lparr>conversation_history = [system_turn, \<lparr>role = ''user'', content = ''hi''\<rparr>],
             world = 1\<rparr>) =
       \<lparr>conversation_history = [system_turn, \<lparr>role = ''user'', content = ''hi''\<rparr>],
        world = 1\<rparr>"
  using read_only_routes_keep_state
          [of "\<lparr>conversation_history = [system_turn, \<lparr>role = ''user'', content = ''hi''\<rparr>],
                world = 1\<rparr>" failing_provider "''gpt-4o-mini''" GET_root]
  by simp

end
